theory Spec2Isabelle
  imports Complex_Main
begin

section \<open>Bingo spinner: the spin engine of \<open>BingoSpinner\<close>\<close>

text \<open>
  The component keeps its session state in React state cells and changes it only in event
  handlers (\<open>applyList\<close>, \<open>resetList\<close>, \<open>setClassicBingo\<close>, \<open>handleSpin\<close>) and in the one
  timer callback that \<open>handleSpin\<close> schedules. Each handler is modelled as a function from
  the committed state to the next committed state.

  Numbers. JavaScript numbers are IEEE doubles. The angles are modelled as exact reals, so
  every statement about angles below is a statement about the arithmetic the code writes
  down, without rounding. Counters and indices are natural numbers.

  Strings. A JavaScript string is a sequence of UTF-16 code units. The model uses \<open>string\<close>
  (a list of 8-bit characters), read as the code units below 256; this covers the text the
  properties below evaluate (the labels, the default list, line breaks and blanks).
\<close>

subsection \<open>Arithmetic of the rotation planner\<close>

text \<open>
  The operator \<open>%\<close> of JavaScript is the remainder of the division truncated towards zero:
  the result has the sign of the dividend. The divisor is 360 at every use.
\<close>

definition trunc :: "real \<Rightarrow> int" where
  "trunc x = (if x < 0 then \<lceil>x\<rceil> else \<lfloor>x\<rfloor>)"

definition js_rem :: "real \<Rightarrow> real \<Rightarrow> real" where
  "js_rem a b = a - b * of_int (trunc (a / b))"

text \<open>
  The residue of an angle modulo 360 in the mathematical sense, in \<open>[0, 360)\<close> for every
  real. It is the reading of \<open>mod\<close> under which two angles that differ by whole turns are
  the same position of the wheel; it agrees with \<open>%\<close> on non-negative angles.
\<close>

definition residue360 :: "real \<Rightarrow> real" where
  "residue360 x = x - 360 * of_int \<lfloor>x / 360\<rfloor>"

text \<open>Line 57: \<open>const sliceAngle = items.length > 0 ? 360 / items.length : 0\<close>.\<close>

definition sliceAngle :: "'a list \<Rightarrow> real" where
  "sliceAngle items = (if length items > 0 then 360 / real (length items) else 0)"

text \<open>Line 139: \<open>const centerAngle = idx * sliceAngle + sliceAngle / 2\<close>.\<close>

definition centerAngle :: "'a list \<Rightarrow> nat \<Rightarrow> real" where
  "centerAngle items idx = real idx * sliceAngle items + sliceAngle items / 2"

text \<open>Line 143: \<open>const current = ((rotation % 360) + 360) % 360\<close>.\<close>

definition current :: "real \<Rightarrow> real" where
  "current rotation = js_rem (js_rem rotation 360 + 360) 360"

text \<open>Line 144: \<open>const deltaToZero = (360 - ((centerAngle + current) % 360)) % 360\<close>.\<close>

definition deltaToZero :: "'a list \<Rightarrow> nat \<Rightarrow> real \<Rightarrow> real" where
  "deltaToZero items idx rotation =
     js_rem (360 - js_rem (centerAngle items idx + current rotation) 360) 360"

text \<open>Line 145: \<open>const target = rotation + extraSpins * 360 + deltaToZero\<close>.\<close>

definition target :: "'a list \<Rightarrow> nat \<Rightarrow> nat \<Rightarrow> real \<Rightarrow> real" where
  "target items idx extraSpins rotation =
     rotation + real extraSpins * 360 + deltaToZero items idx rotation"

text \<open>
  The two random draws of \<open>handleSpin\<close>. \<open>Math.random()\<close> returns a number \<open>u\<close> with
  \<open>0 \<le> u < 1\<close>; the draws are parameters of the model.
  Line 135: \<open>Math.floor(Math.random() * items.length)\<close>;
  line 142: \<open>6 + Math.floor(Math.random() * 4)\<close>.
\<close>

definition random_index :: "real \<Rightarrow> nat \<Rightarrow> nat" where
  "random_index u n = nat \<lfloor>u * real n\<rfloor>"

definition extraSpins :: "real \<Rightarrow> nat" where
  "extraSpins u = 6 + nat \<lfloor>u * 4\<rfloor>"

subsection \<open>Text list input\<close>

text \<open>
  \<open>rawList.split(/\r?\n/).map((s) => s.trim()).filter(Boolean)\<close> (lines 17-20, 67-70 and
  82-85). The regular expression matches a line feed, together with the carriage return
  right before it when there is one; a carriage return that no line feed follows is not a
  separator. \<open>split\<close> returns the pieces between the matches, so the empty text gives one
  empty piece.
\<close>

definition LF :: char where
  "LF = CHR 0x0A"

definition CR :: char where
  "CR = CHR 0x0D"

fun cons_first :: "char \<Rightarrow> string list \<Rightarrow> string list" where
  "cons_first c [] = [[c]]"
| "cons_first c (p # ps) = (c # p) # ps"

fun split_lines :: "string \<Rightarrow> string list" where
  "split_lines [] = [[]]"
| "split_lines [c] = (if c = LF then [[], []] else [[c]])"
| "split_lines (c # d # cs) =
     (if c = CR \<and> d = LF then [] # split_lines cs
      else if c = LF then [] # split_lines (d # cs)
      else cons_first c (split_lines (d # cs)))"

text \<open>
  \<open>String.prototype.trim\<close> removes the white space and the line terminators at both ends.
  Among the code units below 256 these are TAB, LF, VT, FF, CR, SPACE and NBSP.
\<close>

definition is_space :: "char \<Rightarrow> bool" where
  "is_space c \<longleftrightarrow>
     c \<in> set [CHR 0x09, CHR 0x0A, CHR 0x0B, CHR 0x0C, CHR 0x0D, CHR 0x20, CHR 0xA0]"

definition trim :: "string \<Rightarrow> string" where
  "trim s = rev (dropWhile is_space (rev (dropWhile is_space s)))"

text \<open>\<open>filter(Boolean)\<close> keeps the strings that are truthy: the non-empty ones.\<close>

definition parse_list :: "string \<Rightarrow> string list" where
  "parse_list raw = filter (\<lambda>s. s \<noteq> []) (map trim (split_lines raw))"

text \<open>\<open>out.join("\n")\<close> (line 108).\<close>

fun join_lines :: "string list \<Rightarrow> string" where
  "join_lines [] = []"
| "join_lines [x] = x"
| "join_lines (x # y # ys) = x @ LF # join_lines (y # ys)"

subsection \<open>The classic preset\<close>

text \<open>
  The template literal \<open>`${letters[i]}${n}`\<close> writes the number \<open>n\<close>, a positive integer
  here, in decimal.
\<close>

definition digit :: "nat \<Rightarrow> char" where
  "digit d = char_of (of_char (CHR ''0'') + d)"

fun decimal :: "nat \<Rightarrow> string" where
  "decimal n = (if n < 10 then [digit n] else decimal (n div 10) @ [digit (n mod 10)])"

definition letters :: "string list" where
  "letters = [''B'', ''I'', ''N'', ''G'', ''O'']"

definition ranges :: "(nat \<times> nat) list" where
  "ranges = [(1, 15), (16, 30), (31, 45), (46, 60), (61, 75)]"

text \<open>Line 106: \<open>for (let n = a; n <= b; n++) out.push(`${letters[i]}${n}`)\<close>.\<close>

function band_loop :: "string \<Rightarrow> nat \<Rightarrow> nat \<Rightarrow> string list \<Rightarrow> string list" where
  "band_loop letter n b out =
     (if n \<le> b then band_loop letter (n + 1) b (out @ [letter @ decimal n]) else out)"
  by pat_completeness auto
termination
  by (relation "measure (\<lambda>(letter, n, b, out). b + 1 - n)") auto

text \<open>Lines 104-107: \<open>for (let i = 0; i < 5; i++) { const [a, b] = ranges[i]; ... }\<close>.\<close>

function bands_loop :: "nat \<Rightarrow> string list \<Rightarrow> string list" where
  "bands_loop i out =
     (if i < 5
      then (case ranges ! i of (a, b) \<Rightarrow> bands_loop (i + 1) (band_loop (letters ! i) a b out))
      else out)"
  by pat_completeness auto
termination
  by (relation "measure (\<lambda>(i, out). 5 - i)") auto

text \<open>The array \<open>out\<close> when the two loops are over.\<close>

definition classic_out :: "string list" where
  "classic_out = bands_loop 0 []"

subsection \<open>Session state\<close>

text \<open>
  The closure of the callback that \<open>handleSpin\<close> passes to \<open>window.setTimeout\<close> (lines
  153-161). It holds the values of the render in which the spin was requested: the array
  \<open>items\<close>, the index \<open>idx\<close> and the flag \<open>removeOnPick\<close>.
\<close>

record pending =
  p_items :: "string list"
  p_idx :: nat
  p_removeOnPick :: bool

text \<open>
  The state cells of lines 15-29, and the scheduled callback when there is one. Speech
  (\<open>speak\<close>, the voice settings, \<open>autoSpeak\<close>) is left out: \<open>speak\<close> catches its own errors
  and writes none of these cells.
\<close>

record state =
  rawList :: string
  items :: "string list"
  history :: "string list"
  removeOnPick :: bool
  selectedIndex :: "nat option"
  isSpinning :: bool
  rotation :: real
  spinCount :: nat
  timer :: "pending option"

text \<open>Line 13.\<close>

definition defaultWords :: string where
  "defaultWords = ''B1\<newline>B2\<newline>B3\<newline>B4\<newline>B5\<newline>I16\<newline>I17\<newline>I18\<newline>I19\<newline>I20\<newline>N31\<newline>N32\<newline>N33\<newline>N34\<newline>N35\<newline>G46\<newline>G47\<newline>G48\<newline>G49\<newline>G50\<newline>O61\<newline>O62\<newline>O63\<newline>O64\<newline>O65''"

text \<open>The state of the first render (lines 15-29).\<close>

definition init :: state where
  "init = \<lparr>rawList = defaultWords, items = parse_list defaultWords, history = [],
     removeOnPick = False, selectedIndex = None, isSpinning = False, rotation = 0,
     spinCount = 0, timer = None\<rparr>"

subsection \<open>Event handlers\<close>

text \<open>Lines 66-78.\<close>

definition applyList :: "state \<Rightarrow> state" where
  "applyList s =
     (let list = parse_list (rawList s)
      in if length list > 0
         then s\<lparr>items := list, history := [], selectedIndex := None, rotation := 0,
                spinCount := 0\<rparr>
         else s)"

text \<open>Lines 80-91.\<close>

definition resetList :: "state \<Rightarrow> state" where
  "resetList s =
     s\<lparr>items := parse_list (rawList s), history := [], selectedIndex := None, rotation := 0,
       spinCount := 0\<rparr>"

text \<open>Lines 94-115.\<close>

definition setClassicBingo :: "state \<Rightarrow> state" where
  "setClassicBingo s =
     (let out = classic_out; text = join_lines out
      in s\<lparr>rawList := text, items := out, history := [], selectedIndex := None,
            rotation := 0, spinCount := 0\<rparr>)"

text \<open>
  Lines 133-162, up to the call of \<open>window.setTimeout\<close>. \<open>u1\<close> and \<open>u2\<close> are the values of
  the two calls of \<open>Math.random()\<close>.
\<close>

definition handleSpin :: "state \<Rightarrow> real \<Rightarrow> real \<Rightarrow> state" where
  "handleSpin s u1 u2 =
     (if length (items s) = 0 \<or> isSpinning s then s
      else
        let idx = random_index u1 (length (items s));
            tgt = target (items s) idx (extraSpins u2) (rotation s)
        in s\<lparr>selectedIndex := Some idx, isSpinning := True,
              spinCount := spinCount s + 1, rotation := tgt,
              timer := Some \<lparr>p_items = items s, p_idx = idx,
                              p_removeOnPick = removeOnPick s\<rparr>\<rparr>)"

text \<open>Line 159: \<open>prev.filter((_, i) => i !== idx)\<close>.\<close>

definition filter_index :: "nat \<Rightarrow> 'a list \<Rightarrow> 'a list" where
  "filter_index idx prev =
     map fst (filter (\<lambda>(x, i). i \<noteq> idx) (zip prev [0..<length prev]))"

text \<open>
  Lines 153-161, the callback. \<open>picked\<close> is read from the captured array; the updates of
  \<open>history\<close> and \<open>items\<close> are functional updates and start from the cells as they are when
  the timer fires. Without a scheduled callback nothing happens.
\<close>

definition timerElapsed :: "state \<Rightarrow> state" where
  "timerElapsed s =
     (case timer s of
        None \<Rightarrow> s
      | Some p \<Rightarrow>
          let picked = p_items p ! p_idx p
          in s\<lparr>isSpinning := False, history := picked # history s,
                items := (if p_removeOnPick p then filter_index (p_idx p) (items s)
                          else items s),
                timer := None\<rparr>)"

subsection \<open>Sessions\<close>

text \<open>
  What can happen to the component: the text box is edited (line 327), the check box is
  set (line 293), a button is clicked, the timer fires.
\<close>

datatype event =
    SetRawList string
  | SetRemoveOnPick bool
  | ApplyList
  | ResetList
  | SetClassicBingo
  | HandleSpin real real
  | TimerElapsed

fun step :: "state \<Rightarrow> event \<Rightarrow> state" where
  "step s (SetRawList v) = s\<lparr>rawList := v\<rparr>"
| "step s (SetRemoveOnPick b) = s\<lparr>removeOnPick := b\<rparr>"
| "step s ApplyList = applyList s"
| "step s ResetList = resetList s"
| "step s SetClassicBingo = setClassicBingo s"
| "step s (HandleSpin u1 u2) = handleSpin s u1 u2"
| "step s TimerElapsed = timerElapsed s"

definition run :: "state \<Rightarrow> event list \<Rightarrow> state" where
  "run s es = foldl step s es"

subsection \<open>The specification's own notions\<close>

text \<open>
  Spec side, section 4.1: \<open>sliceAngle()\<close> "returns 360 / length, or a sentinel undefined
  when length is 0". \<open>None\<close> stands for the sentinel, \<open>Some x\<close> for the number \<open>x\<close>.
\<close>

definition sliceAngle_spec :: "'a list \<Rightarrow> real option" where
  "sliceAngle_spec pool = (if length pool > 0 then Some (360 / real (length pool)) else None)"

text \<open>
  Spec side, section 6: the preset is "75 labeled items, grouped into 5 bands of 15 (band
  letters x numeric ranges [1,15], [16,30], [31,45], [46,60], [61,75]), concatenated in
  band order, each item formatted as <letter><number>". Band \<open>k\<close> has the \<open>k\<close>-th letter of
  BINGO and the numbers from \<open>15 * k + 1\<close> to \<open>15 * k + 15\<close>.
\<close>

definition preset_spec :: "string list" where
  "preset_spec =
     concat (map (\<lambda>k. map (\<lambda>n. (''BINGO'' ! k) # decimal n) [15 * k + 1 ..< 15 * k + 16])
               [0 ..< 5])"

text \<open>
  Spec side, section 8: "the last applied raw text" of a session, that is the raw text of
  the last apply that was accepted or of the last preset. \<open>a\<close> is the raw text applied
  before the events \<open>es\<close>, \<open>s\<close> the state they start from.
\<close>

fun last_applied :: "state \<Rightarrow> string \<Rightarrow> event list \<Rightarrow> string" where
  "last_applied s a [] = a"
| "last_applied s a (e # es) =
     last_applied (step s e)
       (case e of
          ApplyList \<Rightarrow> if parse_list (rawList s) \<noteq> [] then rawList s else a
        | SetClassicBingo \<Rightarrow> join_lines classic_out
        | _ \<Rightarrow> a)
       es"

text \<open>The operations that replace the list: apply, reset and the preset.\<close>

fun replaces_list :: "event \<Rightarrow> bool" where
  "replaces_list ApplyList = True"
| "replaces_list ResetList = True"
| "replaces_list SetClassicBingo = True"
| "replaces_list _ = False"


text \<open>
  The draws of a session are values of \<open>Math.random()\<close>, in \<open>[0, 1)\<close>. In every session
  a callback is scheduled exactly while a spin is on, and the index it holds lies inside
  the array it holds, so \<open>items[idx]\<close> in the callback reads an element.
\<close>

fun drawn :: "event \<Rightarrow> bool" where
  "drawn (HandleSpin u1 u2) \<longleftrightarrow> 0 \<le> u1 \<and> u1 < 1 \<and> 0 \<le> u2 \<and> u2 < 1"
| "drawn _ \<longleftrightarrow> True"

definition callback_ok :: "state \<Rightarrow> bool" where
  "callback_ok s \<longleftrightarrow>
     (case timer s of
        None \<Rightarrow> \<not> isSpinning s
      | Some p \<Rightarrow> isSpinning s \<and> p_idx p < length (p_items p))"

section \<open>Properties\<close>

subsection \<open>The remainder and the residue\<close>

lemma js_rem_nonneg: "0 \<le> a \<Longrightarrow> js_rem a 360 = residue360 a"
  by (simp add: js_rem_def residue360_def trunc_def)

lemma residue360_shift: "residue360 (x + 360 * of_int k) = residue360 x"
proof -
  have "(x + 360 * of_int k) / 360 = x / 360 + of_int k" by (simp add: field_simps)
  then have "\<lfloor>(x + 360 * of_int k) / 360\<rfloor> = \<lfloor>x / 360\<rfloor> + k" by (simp only: floor_add_int)
  then show ?thesis by (simp add: residue360_def algebra_simps)
qed

lemma residue360_range: "0 \<le> residue360 x \<and> residue360 x < 360"
proof -
  have "of_int \<lfloor>x / 360\<rfloor> \<le> x / 360" "x / 360 < of_int \<lfloor>x / 360\<rfloor> + 1" by linarith+
  then show ?thesis by (simp add: residue360_def field_simps)
qed


lemma js_rem_int: "\<exists>k::int. js_rem a 360 = a - 360 * of_int k"
  by (auto simp: js_rem_def)

lemma js_rem_range_neg: "a < 0 \<Longrightarrow> -360 < js_rem a 360 \<and> js_rem a 360 \<le> 0"
proof -
  assume "a < 0"
  have "of_int \<lceil>a / 360\<rceil> - 1 < a / 360" "a / 360 \<le> of_int \<lceil>a / 360\<rceil>" by linarith+
  then have "360 * of_int \<lceil>a / 360\<rceil> - 360 < a" "a \<le> 360 * of_int \<lceil>a / 360\<rceil>"
    by linarith+
  with \<open>a < 0\<close> show ?thesis by (simp add: js_rem_def trunc_def)
qed

lemma residue360_idem: "residue360 (residue360 x) = residue360 x"
  using residue360_shift[of x "- \<lfloor>x / 360\<rfloor>"] by (simp add: residue360_def[of x])

text \<open>
  The normalisation of line 143 gives the residue of the rotation, whatever its sign: the
  inner \<open>%\<close> lands in \<open>(-360, 360)\<close>, adding 360 makes it non-negative, and the outer \<open>%\<close>
  brings it into \<open>[0, 360)\<close>.
\<close>

lemma current_eq: "current r = residue360 r"
proof (cases "r < 0")
  case False
  then have a: "js_rem r 360 = residue360 r" by (simp add: js_rem_nonneg)
  have "0 \<le> residue360 r + 360" using residue360_range[of r] by simp
  then have "js_rem (residue360 r + 360) 360 = residue360 (residue360 r + 360)"
    by (rule js_rem_nonneg)
  also have "\<dots> = residue360 (residue360 r)" using residue360_shift[of "residue360 r" 1] by simp
  also have "\<dots> = residue360 r" by (rule residue360_idem)
  finally show ?thesis by (simp add: current_def a)
next
  case True
  obtain k :: int where k: "js_rem r 360 = r - 360 * of_int k" using js_rem_int by blast
  have "0 \<le> js_rem r 360 + 360" using js_rem_range_neg[OF True] by simp
  then have "js_rem (js_rem r 360 + 360) 360 = residue360 (js_rem r 360 + 360)"
    by (rule js_rem_nonneg)
  also have "\<dots> = residue360 (r + 360 * of_int (1 - k))" by (simp add: k algebra_simps)
  also have "\<dots> = residue360 r" by (rule residue360_shift)
  finally show ?thesis by (simp add: current_def)
qed

subsection \<open>The rotation planner\<close>

lemma sliceAngle_nonneg: "0 \<le> sliceAngle xs"
  by (simp add: sliceAngle_def)

lemma centerAngle_nonneg: "0 \<le> centerAngle xs i"
  by (simp add: centerAngle_def sliceAngle_nonneg)


lemma deltaToZero_eq:
  "deltaToZero xs i r = residue360 (360 - residue360 (centerAngle xs i + residue360 r))"
proof -
  have "0 \<le> centerAngle xs i + residue360 r"
    using centerAngle_nonneg[of xs i] residue360_range[of r] by linarith
  then have a: "js_rem (centerAngle xs i + residue360 r) 360
      = residue360 (centerAngle xs i + residue360 r)" by (rule js_rem_nonneg)
  have "0 \<le> 360 - residue360 (centerAngle xs i + residue360 r)"
    using residue360_range[of "centerAngle xs i + residue360 r"] by linarith
  then have "js_rem (360 - residue360 (centerAngle xs i + residue360 r)) 360
      = residue360 (360 - residue360 (centerAngle xs i + residue360 r))" by (rule js_rem_nonneg)
  then show ?thesis by (simp add: deltaToZero_def current_eq a)
qed

lemma deltaToZero_range: "0 \<le> deltaToZero xs i r \<and> deltaToZero xs i r < 360"
  by (simp only: deltaToZero_eq residue360_range)

lemma target_ge: "r \<le> target xs i e r"
  using deltaToZero_range[of xs i r] by (simp add: target_def)

lemma target_gt: "1 \<le> e \<Longrightarrow> r < target xs i e r"
proof -
  assume "1 \<le> e"
  then have "360 \<le> real e * 360" by simp
  then show ?thesis using deltaToZero_range[of xs i r] by (simp add: target_def)
qed


text \<open>The draws of \<open>handleSpin\<close>: six to nine extra turns, and an index inside the pool.\<close>

lemma extraSpins_ge: "6 \<le> extraSpins u"
  by (simp add: extraSpins_def)

lemma extraSpins_le: "0 \<le> u \<Longrightarrow> u < 1 \<Longrightarrow> extraSpins u \<le> 9"
proof -
  assume "0 \<le> u" "u < 1"
  then have "\<lfloor>u * 4\<rfloor> \<le> 3" by (simp add: floor_le_iff)
  then show "extraSpins u \<le> 9" unfolding extraSpins_def by linarith
qed

lemma random_index_less:
  assumes "0 \<le> u" "u < 1" "0 < n"
  shows "random_index u n < n"
proof -
  have "u * real n < real n" using assms by simp
  then have "\<lfloor>u * real n\<rfloor> < int n" by (simp add: floor_less_iff)
  then show ?thesis using assms(3) by (simp add: random_index_def)
qed



subsection \<open>The cumulative rotation over a session\<close>

text \<open>
  An event that does not replace the list never lowers the rotation, and the rotation of
  the component is never negative.
\<close>

lemma rotation_step: "\<not> replaces_list e \<Longrightarrow> rotation s \<le> rotation (step s e)"
  by (cases e) (auto simp: handleSpin_def timerElapsed_def Let_def target_ge split: option.splits)

lemma rotation_run: "\<forall>e \<in> set es. \<not> replaces_list e \<Longrightarrow> rotation s \<le> rotation (run s es)"
proof (induction es arbitrary: s)
  case Nil
  then show ?case by (simp add: run_def)
next
  case (Cons e es)
  have "rotation s \<le> rotation (step s e)" using Cons.prems by (simp add: rotation_step)
  also have "\<dots> \<le> rotation (run (step s e) es)" using Cons.prems by (simp add: Cons.IH)
  finally show ?case by (simp add: run_def)
qed

lemma rotation_nonneg_step:
  assumes "0 \<le> rotation s"
  shows "0 \<le> rotation (step s e)"
proof (cases "replaces_list e")
  case True
  then show ?thesis using assms
    by (cases e) (simp_all add: applyList_def resetList_def setClassicBingo_def Let_def)
next
  case False
  then show ?thesis using rotation_step[OF False, of s] assms by linarith
qed
 
lemma rotation_nonneg_run: "0 \<le> rotation s \<Longrightarrow> 0 \<le> rotation (run s es)"
  unfolding run_def by (induction es arbitrary: s) (simp_all add: rotation_nonneg_step)

lemma rotation_nonneg: "0 \<le> rotation (run init es)"
  by (rule rotation_nonneg_run) (simp add: init_def)

subsection \<open>Completion of a spin\<close>









subsection \<open>Concrete sessions\<close>

text \<open>The first render, the first spin with both draws 0, and some small inputs.\<close>

lemma parse_default: "parse_list defaultWords = [''B1'', ''B2'', ''B3'', ''B4'', ''B5'', ''I16'', ''I17'', ''I18'',
       ''I19'', ''I20'', ''N31'', ''N32'', ''N33'', ''N34'', ''N35'',
       ''G46'', ''G47'', ''G48'', ''G49'', ''G50'', ''O61'', ''O62'',
       ''O63'', ''O64'', ''O65'']"
  by code_simp

lemma init_all:
  "rawList init = defaultWords" "items init = parse_list defaultWords" "history init = []"
  "removeOnPick init = False" "selectedIndex init = None"
  "isSpinning init = False" "rotation init = 0" "spinCount init = 0" "timer init = None"
  by (simp_all add: init_def)

lemma target_first: "target (parse_list defaultWords) 0 6 0 = 12564 / 5"
  by (simp add: parse_default target_def deltaToZero_def current_def centerAngle_def
      sliceAngle_def js_rem_def trunc_def)

lemma first_spin_rotation: "rotation (handleSpin init 0 0) = 12564 / 5"
  by (simp add: handleSpin_def init_all parse_default Let_def random_index_def extraSpins_def
      target_first[unfolded parse_default])

lemma parse_blank: "parse_list ''  '' = []"
  by (simp add: parse_list_def trim_def is_space_def LF_def CR_def)

lemma parse_empty: "parse_list [] = []"
  by (simp add: parse_list_def trim_def)

lemma parse_A: "parse_list ''A'' = [''A'']"
  by (simp add: parse_list_def trim_def is_space_def LF_def CR_def)

lemma parse_B: "parse_list ''B'' = [''B'']"
  by (simp add: parse_list_def trim_def is_space_def LF_def CR_def)

lemma spinning_after_first_spin:
  "isSpinning (handleSpin init 0 0) \<and> rawList (handleSpin init 0 0) = defaultWords"
  by (simp add: handleSpin_def init_all parse_default Let_def)

subsection \<open>The scheduled callback\<close>

lemma callback_ok_init: "callback_ok init"
  by (simp add: callback_ok_def init_all)

lemma callback_ok_step:
  assumes "callback_ok s" "drawn e"
  shows "callback_ok (step s e)"
proof (cases e)
  case (HandleSpin u1 u2)
  show ?thesis
  proof (cases "length (items s) = 0 \<or> isSpinning s")
    case True
    then show ?thesis using assms(1) HandleSpin by (simp add: handleSpin_def)
  next
    case False
    then have "random_index u1 (length (items s)) < length (items s)"
      using assms(2) HandleSpin by (simp add: random_index_less)
    then show ?thesis using False HandleSpin
      by (simp add: handleSpin_def callback_ok_def Let_def)
  qed
next
  case TimerElapsed
  then show ?thesis using assms(1)
    by (auto simp: timerElapsed_def callback_ok_def Let_def split: option.splits)
qed (use assms(1) in \<open>auto simp: callback_ok_def applyList_def resetList_def
      setClassicBingo_def Let_def split: option.splits\<close>)

lemma callback_ok_run:
  "callback_ok s \<Longrightarrow> \<forall>e \<in> set es. drawn e \<Longrightarrow> callback_ok (run s es)"
  unfolding run_def by (induction es arbitrary: s) (simp_all add: callback_ok_step)

lemma callback_ok_reachable: "\<forall>e \<in> set es. drawn e \<Longrightarrow> callback_ok (run init es)"
  by (rule callback_ok_run[OF callback_ok_init])

subsection \<open>Requests that are ignored\<close>

text \<open>
  C3. While a spin is on, a spin request returns the state as it is: the spin flag, the
  rotation, the spin counter, the history and the pool are unchanged, and so is the
  scheduled callback, so nothing is queued and the timer does later what it would have
  done without the request.
\<close>

theorem C3_reentrant_spin_ignored:
  assumes "isSpinning s"
  shows "handleSpin s u1 u2 = s
       \<and> isSpinning (handleSpin s u1 u2) = isSpinning s
       \<and> rotation (handleSpin s u1 u2) = rotation s
       \<and> spinCount (handleSpin s u1 u2) = spinCount s
       \<and> history (handleSpin s u1 u2) = history s
       \<and> items (handleSpin s u1 u2) = items s
       \<and> timer (handleSpin s u1 u2) = timer s
       \<and> timerElapsed (handleSpin s u1 u2) = timerElapsed s"
  using assms by (simp add: handleSpin_def)

theorem C3_reentrant_spin_ignored_witness:
  "isSpinning (handleSpin init 0 0)
 \<and> handleSpin (handleSpin init 0 0) (1 / 2) (1 / 2) = handleSpin init 0 0"
  using C3_reentrant_spin_ignored [of "handleSpin init 0 0" "1 / 2" "1 / 2"]
  by (simp add: spinning_after_first_spin)

text \<open>
  C6. An apply whose derived list is empty returns the state as it is, so it clears
  nothing; a spin request on an empty pool returns the state as it is.
\<close>

theorem C6_empty_requests_rejected:
  "(parse_list (rawList s) = [] \<longrightarrow> applyList s = s)
 \<and> (items s = [] \<longrightarrow> handleSpin s u1 u2 = s)"
  by (simp add: applyList_def handleSpin_def)

theorem C6_empty_requests_rejected_witness:
  "parse_list (rawList (init\<lparr>rawList := ''  ''\<rparr>)) = []
 \<and> applyList (init\<lparr>rawList := ''  ''\<rparr>) = init\<lparr>rawList := ''  ''\<rparr>
 \<and> items (resetList (init\<lparr>rawList := []\<rparr>)) = []
 \<and> handleSpin (resetList (init\<lparr>rawList := []\<rparr>)) (1 / 2) (1 / 2)
     = resetList (init\<lparr>rawList := []\<rparr>)"
  using C6_empty_requests_rejected [of "init\<lparr>rawList := ''  ''\<rparr>"]
    C6_empty_requests_rejected [of "resetList (init\<lparr>rawList := []\<rparr>)" "1 / 2" "1 / 2"]
  by (simp add: parse_blank parse_empty resetList_def)

subsection \<open>The slice angle\<close>

text \<open>
  C8, as the claim states it: the slice angle of the empty pool would be the sentinel. The
  code returns the number 0 there.
\<close>

theorem C8_counterexample:
  "sliceAngle ([] :: string list) = 0 \<and> sliceAngle_spec ([] :: string list) = None
 \<and> Some (sliceAngle ([] :: string list)) \<noteq> sliceAngle_spec ([] :: string list)"
  by (simp add: sliceAngle_def sliceAngle_spec_def)

text \<open>
  C8, amended. The slice angle is \<open>360 / length\<close> for a non-empty pool, where it agrees
  with the specification and the slices fill the wheel, and the number 0 for the empty
  pool.
\<close>

theorem C8_sliceAngle:
  "sliceAngle xs = (if length xs > 0 then 360 / real (length xs) else 0)
 \<and> (xs \<noteq> [] \<longrightarrow> Some (sliceAngle xs) = sliceAngle_spec xs
                 \<and> real (length xs) * sliceAngle xs = 360)
 \<and> (xs = [] \<longrightarrow> sliceAngle xs = 0)"
  by (simp add: sliceAngle_def sliceAngle_spec_def)

theorem C8_sliceAngle_witness:
  "[''A'', ''B''] \<noteq> [] \<and> sliceAngle [''A'', ''B''] = 180
 \<and> sliceAngle_spec [''A'', ''B''] = Some 180 \<and> sliceAngle ([] :: string list) = 0"
  using C8_sliceAngle [of "[''A'', ''B'']"] C8_sliceAngle [of "[] :: string list"]
  by (simp add: sliceAngle_spec_def)

subsection \<open>Apply and reset\<close>

text \<open>
  C5, as the claim states it: an accepted apply would leave the spin state Idle. Applied
  during a spin, the default list is accepted and the spin flag is still set.
\<close>

theorem C5_counterexample:
  "parse_list (rawList (handleSpin init 0 0)) \<noteq> []
 \<and> isSpinning (applyList (handleSpin init 0 0))"
  by (simp add: spinning_after_first_spin applyList_def parse_default)

text \<open>
  C5, amended. An apply whose derived list is non-empty replaces the pool with that list,
  empties the history, sets the rotation and the spin counter to 0 and clears the selected
  index; it leaves the spin flag and the scheduled callback as they are, so the spin state
  is Idle afterwards when it was Idle before.
\<close>

theorem C5_apply_list:
  assumes "parse_list (rawList s) \<noteq> []"
  shows "items (applyList s) = parse_list (rawList s)
       \<and> history (applyList s) = []
       \<and> rotation (applyList s) = 0
       \<and> spinCount (applyList s) = 0
       \<and> selectedIndex (applyList s) = None
       \<and> isSpinning (applyList s) = isSpinning s
       \<and> timer (applyList s) = timer s
       \<and> (\<not> isSpinning s \<longrightarrow> \<not> isSpinning (applyList s))"
  using assms by (simp add: applyList_def)

lemma parse_ab: "parse_list ('' A '' @ [CR, LF, LF] @ ''B'') = [''A'', ''B'']"
  by (simp add: parse_list_def trim_def is_space_def LF_def CR_def)

theorem C5_apply_list_witness:
  "parse_list (rawList (init\<lparr>rawList := '' A '' @ [CR, LF, LF] @ ''B''\<rparr>)) \<noteq> []
 \<and> items (applyList (init\<lparr>rawList := '' A '' @ [CR, LF, LF] @ ''B''\<rparr>)) = [''A'', ''B'']
 \<and> \<not> isSpinning (init\<lparr>rawList := '' A '' @ [CR, LF, LF] @ ''B''\<rparr>)
 \<and> \<not> isSpinning (applyList (init\<lparr>rawList := '' A '' @ [CR, LF, LF] @ ''B''\<rparr>))"
  using C5_apply_list [of "init\<lparr>rawList := '' A '' @ [CR, LF, LF] @ ''B''\<rparr>"]
  by (simp add: parse_ab init_all del: append.simps)

text \<open>
  C4, as the claim states it: reset would restore the list of the last applied raw text.
  After "A" is applied and the text box is edited to "B", reset gives the list of "B".
\<close>

theorem C4_counterexample:
  "items (resetList (run init [SetRawList ''A'', ApplyList, SetRawList ''B''])) = [''B'']
 \<and> parse_list (last_applied init defaultWords [SetRawList ''A'', ApplyList, SetRawList ''B''])
     = [''A'']
 \<and> items (resetList (run init [SetRawList ''A'', ApplyList, SetRawList ''B'']))
     \<noteq> parse_list (last_applied init defaultWords [SetRawList ''A'', ApplyList, SetRawList ''B''])"
  by (simp add: run_def resetList_def applyList_def parse_A parse_B)

text \<open>
  C4, amended. Reset sets the pool to the list derived from the current raw text, the
  content of the text box, applied or not and possibly empty; it empties the history and
  sets the rotation and the spin counter to 0. When the raw text is the last applied one,
  the pool is the list of the last applied raw text.
\<close>

theorem C4_reset:
  "items (resetList s) = parse_list (rawList s)
 \<and> history (resetList s) = []
 \<and> rotation (resetList s) = 0
 \<and> spinCount (resetList s) = 0
 \<and> (rawList (run init es) = last_applied init defaultWords es \<longrightarrow>
      items (resetList (run init es)) = parse_list (last_applied init defaultWords es))"
  by (simp add: resetList_def)

theorem C4_reset_witness:
  "rawList (run init [SetRawList ''A'', ApplyList]) = last_applied init defaultWords [SetRawList ''A'', ApplyList]
 \<and> items (resetList (run init [SetRawList ''A'', ApplyList])) = [''A'']"
  using C4_reset [of "run init [SetRawList ''A'', ApplyList]" "[SetRawList ''A'', ApplyList]"]
  by (simp add: run_def applyList_def parse_A)

subsection \<open>The classic preset\<close>

lemma classic_out_eq:
  "classic_out =
    [''B1'', ''B2'', ''B3'', ''B4'', ''B5'', ''B6'', ''B7'', ''B8'', ''B9'', ''B10'',
     ''B11'', ''B12'', ''B13'', ''B14'', ''B15'', ''I16'', ''I17'', ''I18'', ''I19'',
     ''I20'', ''I21'', ''I22'', ''I23'', ''I24'', ''I25'', ''I26'', ''I27'', ''I28'',
     ''I29'', ''I30'', ''N31'', ''N32'', ''N33'', ''N34'', ''N35'', ''N36'', ''N37'',
     ''N38'', ''N39'', ''N40'', ''N41'', ''N42'', ''N43'', ''N44'', ''N45'', ''G46'',
     ''G47'', ''G48'', ''G49'', ''G50'', ''G51'', ''G52'', ''G53'', ''G54'', ''G55'',
     ''G56'', ''G57'', ''G58'', ''G59'', ''G60'', ''O61'', ''O62'', ''O63'', ''O64'',
     ''O65'', ''O66'', ''O67'', ''O68'', ''O69'', ''O70'', ''O71'', ''O72'', ''O73'',
     ''O74'', ''O75'']"
  by code_simp

lemma preset_spec_eq:
  "preset_spec =
    [''B1'', ''B2'', ''B3'', ''B4'', ''B5'', ''B6'', ''B7'', ''B8'', ''B9'', ''B10'',
     ''B11'', ''B12'', ''B13'', ''B14'', ''B15'', ''I16'', ''I17'', ''I18'', ''I19'',
     ''I20'', ''I21'', ''I22'', ''I23'', ''I24'', ''I25'', ''I26'', ''I27'', ''I28'',
     ''I29'', ''I30'', ''N31'', ''N32'', ''N33'', ''N34'', ''N35'', ''N36'', ''N37'',
     ''N38'', ''N39'', ''N40'', ''N41'', ''N42'', ''N43'', ''N44'', ''N45'', ''G46'',
     ''G47'', ''G48'', ''G49'', ''G50'', ''G51'', ''G52'', ''G53'', ''G54'', ''G55'',
     ''G56'', ''G57'', ''G58'', ''G59'', ''G60'', ''O61'', ''O62'', ''O63'', ''O64'',
     ''O65'', ''O66'', ''O67'', ''O68'', ''O69'', ''O70'', ''O71'', ''O72'', ''O73'',
     ''O74'', ''O75'']"
  by code_simp

lemma length_classic_out: "length classic_out = 75"
  by (simp add: classic_out_eq)

lemma distinct_classic_out: "distinct classic_out"
  by (simp add: classic_out_eq)

lemma parse_join_classic_out: "parse_list (join_lines classic_out) = classic_out"
  by code_simp

text \<open>
  C9. The preset generator produces the 75 labels B1 to B15, I16 to I30, N31 to N45, G46 to
  G60 and O61 to O75 in this order, which is the enumeration of the specification; no label
  occurs twice; the preset operation makes them the pool.
\<close>

theorem C9_classic_preset:
  "classic_out =
    [''B1'', ''B2'', ''B3'', ''B4'', ''B5'', ''B6'', ''B7'', ''B8'', ''B9'', ''B10'',
     ''B11'', ''B12'', ''B13'', ''B14'', ''B15'', ''I16'', ''I17'', ''I18'', ''I19'',
     ''I20'', ''I21'', ''I22'', ''I23'', ''I24'', ''I25'', ''I26'', ''I27'', ''I28'',
     ''I29'', ''I30'', ''N31'', ''N32'', ''N33'', ''N34'', ''N35'', ''N36'', ''N37'',
     ''N38'', ''N39'', ''N40'', ''N41'', ''N42'', ''N43'', ''N44'', ''N45'', ''G46'',
     ''G47'', ''G48'', ''G49'', ''G50'', ''G51'', ''G52'', ''G53'', ''G54'', ''G55'',
     ''G56'', ''G57'', ''G58'', ''G59'', ''G60'', ''O61'', ''O62'', ''O63'', ''O64'',
     ''O65'', ''O66'', ''O67'', ''O68'', ''O69'', ''O70'', ''O71'', ''O72'', ''O73'',
     ''O74'', ''O75'']
 \<and> classic_out = preset_spec
 \<and> length classic_out = 75
 \<and> distinct classic_out
 \<and> items (setClassicBingo s) = classic_out"
proof -
  have "items (setClassicBingo s) = classic_out" by (simp add: setClassicBingo_def Let_def)
  moreover have "classic_out = preset_spec" by (simp only: classic_out_eq preset_spec_eq)
  ultimately show ?thesis
    using classic_out_eq length_classic_out distinct_classic_out by (simp only: simp_thms)
qed

text \<open>
  C10. The preset stores the labels joined by line feeds as the raw text, and a reset right
  after the preset gives the same pool of 75 labels; it gives the same state altogether.
\<close>

theorem C10_reset_after_preset:
  "rawList (setClassicBingo s) = join_lines classic_out
 \<and> items (resetList (setClassicBingo s)) = items (setClassicBingo s)
 \<and> items (resetList (setClassicBingo s)) = classic_out
 \<and> length (items (resetList (setClassicBingo s))) = 75
 \<and> resetList (setClassicBingo s) = setClassicBingo s"
  by (simp add: setClassicBingo_def resetList_def Let_def parse_join_classic_out
      length_classic_out)

subsection \<open>Resets of the rotation\<close>

text \<open>
  C7, as the claim states it: no operation would lower the rotation. After one spin the
  rotation is 2512.8, and reset sets it to 0.
\<close>

theorem C7_counterexample:
  "rotation (run init [HandleSpin 0 0, TimerElapsed]) = 12564 / 5
 \<and> rotation (step (run init [HandleSpin 0 0, TimerElapsed]) ResetList) = 0
 \<and> rotation (step (run init [HandleSpin 0 0, TimerElapsed]) ResetList)
     < rotation (run init [HandleSpin 0 0, TimerElapsed])"
proof -
  have "rotation (timerElapsed (handleSpin init 0 0)) = rotation (handleSpin init 0 0)"
    by (simp add: timerElapsed_def Let_def split: option.split)
  then show ?thesis by (simp add: run_def resetList_def first_spin_rotation)
qed

text \<open>
  C7, amended. A spin request never lowers the rotation, and an accepted one raises it; the
  timer callback leaves it as it is; so over any events without apply, reset and preset
  the rotation does not decrease. Reset and the preset set it to 0, and so does an apply
  that is accepted; an apply that is rejected leaves it as it is.
\<close>

theorem C7_rotation_between_resets:
  "rotation s \<le> rotation (handleSpin s u1 u2)
 \<and> (items s \<noteq> [] \<and> \<not> isSpinning s \<longrightarrow> rotation s < rotation (handleSpin s u1 u2))
 \<and> rotation (timerElapsed s) = rotation s
 \<and> ((\<forall>e \<in> set es. \<not> replaces_list e) \<longrightarrow> rotation s \<le> rotation (run s es))
 \<and> rotation (resetList s) = 0
 \<and> rotation (setClassicBingo s) = 0
 \<and> (parse_list (rawList s) \<noteq> [] \<longrightarrow> rotation (applyList s) = 0)
 \<and> (parse_list (rawList s) = [] \<longrightarrow> rotation (applyList s) = rotation s)"
proof -
  have a: "rotation s \<le> rotation (handleSpin s u1 u2)"
    using rotation_step[of "HandleSpin u1 u2" s] by simp
  have b: "rotation s < rotation (handleSpin s u1 u2)" if "items s \<noteq> []" "\<not> isSpinning s"
    using that target_gt[of "extraSpins u2"] extraSpins_ge[of u2]
    by (simp add: handleSpin_def Let_def)
  have c: "rotation (timerElapsed s) = rotation s"
    by (simp add: timerElapsed_def Let_def split: option.split)
  have d: "rotation s \<le> rotation (run s es)" if "\<forall>e \<in> set es. \<not> replaces_list e"
    using that by (rule rotation_run)
  have e: "rotation (resetList s) = 0" "rotation (setClassicBingo s) = 0"
    by (simp_all add: resetList_def setClassicBingo_def Let_def)
  have f: "rotation (applyList s) = (if parse_list (rawList s) \<noteq> [] then 0 else rotation s)"
    by (simp add: applyList_def Let_def)
  show ?thesis using a b c d e f by simp
qed

theorem C7_rotation_between_resets_witness:
  "items init \<noteq> [] \<and> \<not> isSpinning init
 \<and> \<not> replaces_list (HandleSpin 0 0) \<and> \<not> replaces_list TimerElapsed
 \<and> parse_list (rawList init) \<noteq> []
 \<and> parse_list (rawList (init\<lparr>rawList := []\<rparr>)) = []
 \<and> rotation init < rotation (handleSpin init 0 0)
 \<and> rotation init \<le> rotation (run init [HandleSpin 0 0, TimerElapsed])
 \<and> rotation (applyList init) = 0
 \<and> rotation (applyList (init\<lparr>rawList := []\<rparr>)) = rotation (init\<lparr>rawList := []\<rparr>)"
  using C7_rotation_between_resets [of init 0 0 "[HandleSpin 0 0, TimerElapsed]"]
    C7_rotation_between_resets [of "init\<lparr>rawList := []\<rparr>" 0 0 "[]"]
  by (simp add: init_all parse_default parse_empty)

end
